theory Spec2Isabelle
  imports Complex_Main
begin

section \<open>Data model\<close>

text \<open>
  The development embeds the machine-learning library of Husky
  (\<^verbatim>\<open>lib/ml/model.hpp\<close>, \<^verbatim>\<open>lib/ml/sgd.hpp\<close>, \<^verbatim>\<open>lib/ml/regression.hpp\<close>,
  \<^verbatim>\<open>lib/ml/svm.hpp\<close>) and the test loop of \<^verbatim>\<open>examples/svm_fgd.cpp\<close>.

  Conventions of the embedding.
  \<^item> A finite \<^verbatim>\<open>double\<close> is a \<^typ>\<open>real\<close>: rounding is not modelled. The one
    place where the library divides by a count that can be zero (\<^verbatim>\<open>avg_error\<close>) returns
    a value of the type \<open>dbl\<close> below, which has the non-finite doubles.
  \<^item> An \<^verbatim>\<open>int\<close> is an \<^typ>\<open>int\<close>: overflow of counts and indices is not modelled.
  \<^item> Whatever aborts the job (a failed \<^verbatim>\<open>ASSERT_MSG\<close>, a call of an empty
    \<^verbatim>\<open>std::function\<close>, an access out of the range of a vector) is a value \<open>Inl e\<close>
    of the result type \<open>error + 'a\<close>.
  \<^item> A member name of the source ends in an underscore (\<^verbatim>\<open>learning_rate_\<close>); the
    underscore is dropped here, since such a name is not an identifier of Isabelle.
  \<^item> Log output (\<^verbatim>\<open>log_info\<close>) changes no state and is left out.
\<close>

datatype error =
    ConfigurationError string  \<comment> \<open>a failed \<^verbatim>\<open>ASSERT_MSG(cond, msg)\<close>, with its message\<close>
  | IndexError                 \<comment> \<open>an access out of the range of a vector or parameter store\<close>
  | BadFunctionCall            \<comment> \<open>a call of a \<^verbatim>\<open>std::function\<close> that is \<^verbatim>\<open>nullptr\<close>\<close>
  | NonFinite                  \<comment> \<open>a double leaves the finite range (division by a zero count)\<close>

text \<open>\<^verbatim>\<open>Vector<double, false>\<close>, the dense vector.\<close>

type_synonym vec = "real list"

text \<open>
  Any \<^verbatim>\<open>Vector<FeatureT, is_sparse>\<close> as the loop
  \<^verbatim>\<open>for (it = v.begin_feaval(); it != v.end_feaval(); ++it)\<close> sees it: the sequence of its
  \<^verbatim>\<open>FeaValPair\<close>s \<^verbatim>\<open>(fea, val)\<close>.
\<close>

type_synonym feavec = "(int \<times> real) list"

text \<open>The pairs a dense vector yields: every index with its value, in order.\<close>

definition feaval :: "vec \<Rightarrow> feavec" where
  "feaval v = zip (map int [0..<length v]) v"

text \<open>\<^verbatim>\<open>LabeledPointHObj\<close>: the fields \<^verbatim>\<open>x\<close> (features) and \<^verbatim>\<open>y\<close> (label).\<close>

datatype 'v LabeledPointHObj = LabeledPointHObj (obj_x: 'v) (obj_y: real)

subsection \<open>Vector and ParameterBucket\<close>

text \<open>
  Modelled from the spec: \<^verbatim>\<open>lib/vector.hpp\<close> and \<^verbatim>\<open>lib/ml/parameter.hpp\<close> are not among the
  sources. Section 4.1 of the specification gives the parameter store the operations
  \<^verbatim>\<open>init(size, fill)\<close>, \<^verbatim>\<open>get(index)\<close> failing out of range, \<^verbatim>\<open>update(index, delta)\<close> adding
  \<^verbatim>\<open>delta\<close>, \<^verbatim>\<open>snapshot()\<close> returning a copy and \<^verbatim>\<open>paramCount()\<close>; section 7 makes an
  out-of-range parameter access an IndexError.
\<close>

definition init :: "int \<Rightarrow> real \<Rightarrow> vec" where
  "init num_param val = replicate (nat num_param) val"

definition get_num_param :: "vec \<Rightarrow> int" where
  "get_num_param param_list = int (length param_list)"

definition get_all_param :: "vec \<Rightarrow> vec" where
  "get_all_param param_list = param_list"

definition in_range :: "vec \<Rightarrow> int \<Rightarrow> bool" where
  "in_range v idx = (0 \<le> idx \<and> idx < int (length v))"

definition param_at :: "vec \<Rightarrow> int \<Rightarrow> error + real" where
  "param_at param_list idx =
     (if in_range param_list idx then Inr (param_list ! nat idx) else Inl IndexError)"

definition update :: "vec \<Rightarrow> int \<Rightarrow> real \<Rightarrow> error + vec" where
  "update param_list idx delta =
     (if in_range param_list idx
      then Inr (param_list[nat idx := param_list ! nat idx + delta])
      else Inl IndexError)"

section \<open>SGD (lib/ml/sgd.hpp)\<close>

text \<open>
  The optimizer object: the gradient function and the learning rate of
  \<^verbatim>\<open>GradientDescentBase\<close>, and the three private fields of \<^verbatim>\<open>SGD\<close>.
\<close>

record 'o SGD =
  gd_gradient_func :: "('o \<Rightarrow> vec \<Rightarrow> error + feavec) option"
  learning_rate :: real
  regularization_flag :: bool
  regularization_norm :: int
  lambda :: real

text \<open>
  The constructor \<^verbatim>\<open>SGD(_gradient_func, _learning_rate)\<close>. The norm and \<^verbatim>\<open>lambda_\<close> are
  not initialised in the source; they are read only after \<^verbatim>\<open>set_regularization\<close>.
\<close>

definition SGD_new :: "('o \<Rightarrow> vec \<Rightarrow> error + feavec) option \<Rightarrow> real \<Rightarrow> 'o SGD" where
  "SGD_new gf lr =
     \<lparr>gd_gradient_func = gf, learning_rate = lr, regularization_flag = False,
      regularization_norm = 0, lambda = 0\<rparr>"

definition set_regularization :: "int \<Rightarrow> real \<Rightarrow> 'o SGD \<Rightarrow> 'o SGD" where
  "set_regularization nrm lam gd =
     gd\<lparr>regularization_flag := True, regularization_norm := nrm, lambda := lam\<rparr>"

text \<open>
  \<^verbatim>\<open>l2_regularize\<close>: the loop \<^verbatim>\<open>for (i = 0; i < get_num_param(); ++i)\<close> over the indices
  that remain, each step \<^verbatim>\<open>update(i, - param_at(i) * learning_rate_ * lambda_)\<close>.
\<close>

fun l2_regularize_from :: "real \<Rightarrow> real \<Rightarrow> int list \<Rightarrow> vec \<Rightarrow> error + vec" where
  "l2_regularize_from lr lam [] param_list = Inr param_list"
| "l2_regularize_from lr lam (i # rest) param_list =
     (case param_at param_list i of
        Inl e \<Rightarrow> Inl e
      | Inr v \<Rightarrow>
          (case update param_list i (- v * lr * lam) of
             Inl e \<Rightarrow> Inl e
           | Inr param_list' \<Rightarrow> l2_regularize_from lr lam rest param_list'))"

definition l2_regularize :: "'o SGD \<Rightarrow> vec \<Rightarrow> error + vec" where
  "l2_regularize gd param_list =
     l2_regularize_from (learning_rate gd) (lambda gd)
       (map int [0..<nat (get_num_param param_list)]) param_list"

text \<open>
  The inner loop of \<^verbatim>\<open>update_param\<close> over the components of one gradient. The state is
  the pair of the local copy \<^verbatim>\<open>current_vec\<close> and the store \<^verbatim>\<open>param_list\<close>:
  \<^verbatim>\<open>delta = w.val * learning_rate_; current_vec[w.fea] += delta;
  param_list.update(w.fea, delta * num_local_samples / num_global_samples)\<close>.
  The quotient is a division of doubles; by a zero count it is not finite.
\<close>

fun apply_grad :: "real \<Rightarrow> int \<Rightarrow> int \<Rightarrow> feavec \<Rightarrow> vec \<times> vec \<Rightarrow> error + (vec \<times> vec)" where
  "apply_grad lr nl ng [] st = Inr st"
| "apply_grad lr nl ng ((fea, val) # grad) (current_vec, param_list) =
     (let delta = val * lr in
      case update current_vec fea delta of
        Inl e \<Rightarrow> Inl e
      | Inr current_vec' \<Rightarrow>
          if ng = 0 then Inl NonFinite
          else
            (case update param_list fea (delta * real_of_int nl / real_of_int ng) of
               Inl e \<Rightarrow> Inl e
             | Inr param_list' \<Rightarrow> apply_grad lr nl ng grad (current_vec', param_list')))"

text \<open>
  Modelled from the spec: \<^verbatim>\<open>list_execute\<close> (\<^verbatim>\<open>core/executor.hpp\<close>) is not among the sources;
  section 6 of the specification: it applies a closure to every local record. The closure
  here changes a state \<open>'s\<close> or aborts.
\<close>

fun list_execute :: "'o list \<Rightarrow> ('o \<Rightarrow> 's \<Rightarrow> error + 's) \<Rightarrow> 's \<Rightarrow> error + 's" where
  "list_execute [] body st = Inr st"
| "list_execute (this_obj # rest) body st =
     (case body this_obj st of
        Inl e \<Rightarrow> Inl e
      | Inr st' \<Rightarrow> list_execute rest body st')"

text \<open>The closure \<^verbatim>\<open>update_param\<close> passes to \<^verbatim>\<open>list_execute\<close>.\<close>

definition update_param_body ::
  "('o \<Rightarrow> vec \<Rightarrow> error + feavec) \<Rightarrow> real \<Rightarrow> int \<Rightarrow> int \<Rightarrow> 'o \<Rightarrow> vec \<times> vec \<Rightarrow> error + (vec \<times> vec)"
where
  "update_param_body gf lr nl ng this_obj st =
     (case gf this_obj (fst st) of
        Inl e \<Rightarrow> Inl e
      | Inr grad \<Rightarrow> apply_grad lr nl ng grad st)"

text \<open>
  The regularization step of \<^verbatim>\<open>update_param\<close>: the \<^verbatim>\<open>switch\<close> on the norm under the flag.
  Case 1 is \<^verbatim>\<open>// TODO(Tatiana): l1_regularize(param_list); break;\<close>.
\<close>

definition regularize :: "'o SGD \<Rightarrow> vec \<Rightarrow> error + vec" where
  "regularize gd param_list =
     (if regularization_flag gd then
        (if regularization_norm gd = 1 then Inr param_list
         else if regularization_norm gd = 2 then l2_regularize gd param_list
         else Inr param_list)
      else Inr param_list)"

text \<open>
  \<^verbatim>\<open>SGD::update_param(data, param_list, num_global_samples)\<close> as one worker runs it, on its
  partition \<open>data\<close>. \<open>update_param_run\<close> is the body of the function and returns the pair of
  the local \<^verbatim>\<open>current_vec\<close> and the store \<^verbatim>\<open>param_list\<close> as they are when the function
  returns. The effect of the function is the store: \<open>update_param\<close>. The local copy,
  which the source drops, is \<open>current_vec_after\<close>.
\<close>

definition update_param_run :: "'o SGD \<Rightarrow> 'o list \<Rightarrow> vec \<Rightarrow> int \<Rightarrow> error + (vec \<times> vec)" where
  "update_param_run gd data param_list num_global_samples =
     (if learning_rate gd = 0 then Inl (ConfigurationError ''Learning rate is set to 0.'')
      else
        (case gd_gradient_func gd of
           None \<Rightarrow> Inl (ConfigurationError ''Gradient function is not specified.'')
         | Some gf \<Rightarrow>
             (let num_local_samples = int (length data);
                  current_vec = get_all_param param_list
              in case regularize gd param_list of
                   Inl e \<Rightarrow> Inl e
                 | Inr param_list' \<Rightarrow>
                     list_execute data
                       (update_param_body gf (learning_rate gd) num_local_samples
                          num_global_samples)
                       (current_vec, param_list'))))"

definition update_param :: "'o SGD \<Rightarrow> 'o list \<Rightarrow> vec \<Rightarrow> int \<Rightarrow> error + vec" where
  "update_param gd data param_list num_global_samples =
     (case update_param_run gd data param_list num_global_samples of
        Inl e \<Rightarrow> Inl e
      | Inr st \<Rightarrow> Inr (snd st))"

definition current_vec_after :: "'o SGD \<Rightarrow> 'o list \<Rightarrow> vec \<Rightarrow> int \<Rightarrow> error + vec" where
  "current_vec_after gd data param_list num_global_samples =
     (case update_param_run gd data param_list num_global_samples of
        Inl e \<Rightarrow> Inl e
      | Inr st \<Rightarrow> Inr (fst st))"

subsection \<open>One round over all workers\<close>

text \<open>Componentwise sum and difference of two vectors.\<close>

definition vadd :: "vec \<Rightarrow> vec \<Rightarrow> vec" where
  "vadd a b = map2 (+) a b"

definition vsub :: "vec \<Rightarrow> vec \<Rightarrow> vec" where
  "vsub a b = map2 (-) a b"

text \<open>
  Modelled from the spec: the aggregator channel behind the parameter store
  (\<^verbatim>\<open>lib/aggregator.hpp\<close>, \<^verbatim>\<open>lib/ml/parameter.hpp\<close>) is not among the sources. Sections 4.1 and
  5 of the specification: every worker reads the store as the previous barrier left it,
  the updates of all workers are added, each exactly once, and become visible at the
  barrier. A worker is the pair of its optimizer object and its partition; the
  accumulator \<open>acc\<close> is the store the next barrier will publish.
\<close>

fun update_param_workers :: "('o SGD \<times> 'o list) list \<Rightarrow> vec \<Rightarrow> int \<Rightarrow> vec \<Rightarrow> error + vec" where
  "update_param_workers [] param_list ng acc = Inr acc"
| "update_param_workers ((gd, data) # workers) param_list ng acc =
     (case update_param gd data param_list ng of
        Inl e \<Rightarrow> Inl e
      | Inr r \<Rightarrow> update_param_workers workers param_list ng (vadd acc (vsub r param_list)))"

definition update_param_all :: "('o SGD \<times> 'o list) list \<Rightarrow> vec \<Rightarrow> int \<Rightarrow> error + vec" where
  "update_param_all workers param_list ng = update_param_workers workers param_list ng param_list"

subsection \<open>The round as the specification words it\<close>



section \<open>Model (lib/ml/model.hpp)\<close>

text \<open>
  A double that need not be finite: the quotient \<^verbatim>\<open>global_error / num_samples\<close> of
  \<^verbatim>\<open>avg_error\<close> is computed with no test of the divisor.
\<close>

datatype dbl = Finite real | PosInf | NegInf | NaN

definition dbl_div :: "real \<Rightarrow> int \<Rightarrow> dbl" where
  "dbl_div a n =
     (if n = 0 then (if a = 0 then NaN else if 0 < a then PosInf else NegInf)
      else Finite (a / real_of_int n))"

text \<open>\<^verbatim>\<open>a == 0.0\<close> and \<^verbatim>\<open>a > b\<close> on doubles: every comparison with a NaN is false.\<close>

definition dbl_is_zero :: "dbl \<Rightarrow> bool" where
  "dbl_is_zero a = (a = Finite 0)"

fun dbl_gt :: "dbl \<Rightarrow> dbl \<Rightarrow> bool" where
  "dbl_gt (Finite a) (Finite b) = (b < a)"
| "dbl_gt (Finite a) NegInf = True"
| "dbl_gt PosInf (Finite b) = True"
| "dbl_gt PosInf NegInf = True"
| "dbl_gt a b = False"

record 'o Model =
  gradient_func :: "('o \<Rightarrow> vec \<Rightarrow> error + feavec) option"
  error_func :: "('o \<Rightarrow> vec \<Rightarrow> error + real) option"
  predict_func :: "('o \<Rightarrow> vec \<Rightarrow> error + real) option"
  param_list :: vec
  num_feature :: int
  trained :: bool
  report_per_round :: bool

text \<open>
  The constructor \<^verbatim>\<open>Model()\<close> with the member initialisers of the class. A
  \<^verbatim>\<open>ParameterBucket\<close> that was never initialised has no parameter (the message of the
  assertion in \<^verbatim>\<open>train\<close>: "The number of parameters is 0.").
\<close>

definition Model_new :: "'o Model" where
  "Model_new =
     \<lparr>gradient_func = None, error_func = None, predict_func = None, param_list = [],
      num_feature = - 1, trained = False, report_per_round = False\<rparr>"

text \<open>
  \<^verbatim>\<open>set_num_param\<close>: \<^verbatim>\<open>if (_num_param > 0) { param_list_.init(_num_param, 0.0); }\<close>. It has no
  other branch and no assertion; the result type has the error side only to state that.
\<close>

definition set_num_param :: "int \<Rightarrow> 'o Model \<Rightarrow> error + 'o Model" where
  "set_num_param num_param m =
     (if 0 < num_param then Inr (m\<lparr>param_list := init num_param 0\<rparr>) else Inr m)"

definition set_gradient_func :: "('o \<Rightarrow> vec \<Rightarrow> error + feavec) \<Rightarrow> 'o Model \<Rightarrow> 'o Model" where
  "set_gradient_func f m = m\<lparr>gradient_func := Some f\<rparr>"

definition set_error_func :: "('o \<Rightarrow> vec \<Rightarrow> error + real) \<Rightarrow> 'o Model \<Rightarrow> 'o Model" where
  "set_error_func f m = m\<lparr>error_func := Some f\<rparr>"

definition set_predict_func :: "('o \<Rightarrow> vec \<Rightarrow> error + real) \<Rightarrow> 'o Model \<Rightarrow> 'o Model" where
  "set_predict_func f m = m\<lparr>predict_func := Some f\<rparr>"

text \<open>
  \<^verbatim>\<open>predict\<close> on the partition of one worker: the assertion, then the label of every
  record is overwritten.
\<close>

fun predict_loop ::
  "('v LabeledPointHObj \<Rightarrow> vec \<Rightarrow> error + real) \<Rightarrow> vec \<Rightarrow> 'v LabeledPointHObj list \<Rightarrow>
   error + 'v LabeledPointHObj list"
where
  "predict_loop pf params [] = Inr []"
| "predict_loop pf params (this_obj # rest) =
     (case pf this_obj params of
        Inl e \<Rightarrow> Inl e
      | Inr v \<Rightarrow>
          (case predict_loop pf params rest of
             Inl e \<Rightarrow> Inl e
           | Inr rest' \<Rightarrow> Inr (LabeledPointHObj (obj_x this_obj) v # rest')))"

definition predict ::
  "('v LabeledPointHObj) Model \<Rightarrow> 'v LabeledPointHObj list \<Rightarrow> error + 'v LabeledPointHObj list"
where
  "predict m data =
     (case predict_func m of
        None \<Rightarrow> Inl (ConfigurationError ''Predict function is not specified.'')
      | Some pf \<Rightarrow> predict_loop pf (param_list m) data)"

text \<open>
  \<^verbatim>\<open>avg_error\<close>. The closure run on the partition of one worker adds the error of the
  record to \<^verbatim>\<open>error_agg\<close> and 1 to \<^verbatim>\<open>num_samples_agg\<close>; it calls \<^verbatim>\<open>error_func_\<close> with no
  test that it is set.
\<close>

definition avg_error_body :: "'o Model \<Rightarrow> 'o \<Rightarrow> real \<times> int \<Rightarrow> error + (real \<times> int)" where
  "avg_error_body m this_obj agg =
     (case error_func m of
        None \<Rightarrow> Inl BadFunctionCall
      | Some ef \<Rightarrow>
          (case ef this_obj (param_list m) of
             Inl e \<Rightarrow> Inl e
           | Inr v \<Rightarrow> Inr (fst agg + v, snd agg + 1)))"

text \<open>
  Modelled from the spec: \<^verbatim>\<open>Aggregator\<close> (\<^verbatim>\<open>lib/aggregator.hpp\<close>) is not among the sources;
  section 2 of the specification: each worker contributes a partial value, all workers
  receive the sum. Here the partial values are the pairs of an error sum and a count
  the workers computed on their partitions, running the closure \<open>body\<close> from \<open>(0, 0)\<close>.
\<close>

fun aggregate ::
  "('o \<Rightarrow> real \<times> int \<Rightarrow> error + (real \<times> int)) \<Rightarrow> 'o list list \<Rightarrow> error + (real \<times> int)"
where
  "aggregate body [] = Inr (0, 0)"
| "aggregate body (data # parts) =
     (case list_execute data body (0, 0) of
        Inl e \<Rightarrow> Inl e
      | Inr a \<Rightarrow>
          (case aggregate body parts of
             Inl e \<Rightarrow> Inl e
           | Inr b \<Rightarrow> Inr (fst a + fst b, snd a + snd b)))"

text \<open>
  \<^verbatim>\<open>avg_error\<close> over the partitions of all workers:
  \<^verbatim>\<open>mean_error = global_error / num_samples\<close>.
\<close>

definition avg_error :: "'o Model \<Rightarrow> 'o list list \<Rightarrow> error + dbl" where
  "avg_error m parts =
     (case aggregate (avg_error_body m) parts of
        Inl e \<Rightarrow> Inl e
      | Inr agg \<Rightarrow> Inr (dbl_div (fst agg) (snd agg)))"

section \<open>Regression (lib/ml/regression.hpp)\<close>

text \<open>
  The training functions are modelled over the partitions of all workers: \<open>parts\<close> has
  one list of records per worker. Every worker builds the same optimizer
  \<^verbatim>\<open>GD<...> gd(this->gradient_func_, learning_rate)\<close> and runs the same loop, one round
  between two barriers.
\<close>

definition workers_of :: "'o SGD \<Rightarrow> 'o list list \<Rightarrow> ('o SGD \<times> 'o list) list" where
  "workers_of gd parts = map (\<lambda>data. (gd, data)) parts"

text \<open>
  The statistics pass at the head of \<^verbatim>\<open>train\<close> and \<^verbatim>\<open>train_test\<close>:
  \<^verbatim>\<open>num_samples_agg.update(1)\<close> for every record of every worker.
\<close>

definition count_samples :: "'o list list \<Rightarrow> int" where
  "count_samples parts = sum_list (map (\<lambda>data. int (length data)) parts)"

text \<open>
  The pass of \<^verbatim>\<open>train\<close> under \<^verbatim>\<open>report_per_round\<close>: \<^verbatim>\<open>error_stat.update(error_func_(...))\<close>
  for every record. Its sum is only logged.
\<close>

definition report_error :: "'o Model \<Rightarrow> 'o list list \<Rightarrow> error + (real \<times> int)" where
  "report_error m parts = aggregate (avg_error_body m) parts"

text \<open>The loop \<^verbatim>\<open>for (int round = 0; round < iters; round++)\<close> of \<^verbatim>\<open>train\<close>.\<close>

function train_rounds ::
  "'o SGD \<Rightarrow> 'o list list \<Rightarrow> int \<Rightarrow> int \<Rightarrow> int \<Rightarrow> 'o Model \<Rightarrow> error + 'o Model"
where
  "train_rounds gd parts num_samples iters rnd m =
     (if rnd < iters then
        (case update_param_all (workers_of gd parts) (param_list m) num_samples of
           Inl e \<Rightarrow> Inl e
         | Inr params \<Rightarrow>
             (let m' = m\<lparr>param_list := params\<rparr> in
              if report_per_round m' then
                (case report_error m' parts of
                   Inl e \<Rightarrow> Inl e
                 | Inr stat \<Rightarrow> train_rounds gd parts num_samples iters (rnd + 1) m')
              else train_rounds gd parts num_samples iters (rnd + 1) m'))
      else Inr m)"
  by pat_completeness auto
termination
  by (relation "measure (\<lambda>(gd, parts, num_samples, iters, rnd, m). nat (iters - rnd))") auto

definition train :: "'o Model \<Rightarrow> 'o list list \<Rightarrow> int \<Rightarrow> real \<Rightarrow> error + 'o Model" where
  "train m parts iters lr =
     (if \<not> 0 < get_num_param (param_list m)
      then Inl (ConfigurationError ''The number of parameters is 0.'')
      else if gradient_func m = None
      then Inl (ConfigurationError ''Gradient function is not specified.'')
      else if error_func m = None
      then Inl (ConfigurationError ''Error function is not specified.'')
      else
        (case train_rounds (SGD_new (gradient_func m) lr) parts (count_samples parts) iters 0 m of
           Inl e \<Rightarrow> Inl e
         | Inr m' \<Rightarrow> Inr (m'\<lparr>trained := True\<rparr>)))"

text \<open>
  The loop of \<^verbatim>\<open>train_test\<close>. Besides the model it returns the values \<^verbatim>\<open>currentError\<close> took,
  one for each round that ran, in order, and whether the loop was left by the
  \<^verbatim>\<open>break\<close>. \<open>past\<close> is \<^verbatim>\<open>pastError\<close>.
\<close>

function train_test_rounds ::
  "'o SGD \<Rightarrow> 'o list list \<Rightarrow> 'o list list \<Rightarrow> int \<Rightarrow> int \<Rightarrow> int \<Rightarrow> dbl \<Rightarrow> 'o Model \<Rightarrow>
   error + ('o Model \<times> dbl list \<times> bool)"
where
  "train_test_rounds gd parts test num_samples iters rnd past m =
     (if rnd < iters then
        (case update_param_all (workers_of gd parts) (param_list m) num_samples of
           Inl e \<Rightarrow> Inl e
         | Inr params \<Rightarrow>
             (let m' = m\<lparr>param_list := params\<rparr> in
              case avg_error m' test of
                Inl e \<Rightarrow> Inl e
              | Inr currentError \<Rightarrow>
                  if dbl_is_zero currentError \<or> (rnd \<noteq> 0 \<and> dbl_gt currentError past)
                  then Inr (m', [currentError], True)
                  else
                    (case train_test_rounds gd parts test num_samples iters (rnd + 1)
                            currentError m' of
                       Inl e \<Rightarrow> Inl e
                     | Inr (m'', errors, stopped) \<Rightarrow> Inr (m'', currentError # errors, stopped))))
      else Inr (m, [], False))"
  by pat_completeness auto
termination
  by (relation "measure (\<lambda>(gd, parts, test, num_samples, iters, rnd, past, m).
        nat (iters - rnd))") auto

definition train_test ::
  "'o Model \<Rightarrow> 'o list list \<Rightarrow> 'o list list \<Rightarrow> int \<Rightarrow> real \<Rightarrow> error + ('o Model \<times> dbl list \<times> bool)"
where
  "train_test m parts test iters lr =
     (if \<not> 0 < get_num_param (param_list m)
      then Inl (ConfigurationError ''The number of parameters is 0.'')
      else if gradient_func m = None
      then Inl (ConfigurationError ''Gradient function is not specified.'')
      else if error_func m = None
      then Inl (ConfigurationError ''Error function is not specified.'')
      else
        (case train_test_rounds (SGD_new (gradient_func m) lr) parts test (count_samples parts)
                iters 0 (Finite 0) m of
           Inl e \<Rightarrow> Inl e
         | Inr (m', errors, stopped) \<Rightarrow> Inr (m'\<lparr>trained := True\<rparr>, errors, stopped)))"

section \<open>SVM (lib/ml/svm.hpp), dense instance\<close>

text \<open>
  Modelled from the spec: the operations of \<^verbatim>\<open>Vector\<close> (\<^verbatim>\<open>lib/vector.hpp\<close>) used by the
  closures of \<^verbatim>\<open>SVM\<close> are not among the sources. \<^verbatim>\<open>dot_with_intcpt\<close> is \<open>w\<cdot>x + b\<close> of section 4.3
  of the specification, the intercept \<open>b\<close> being the last parameter; when the parameter
  vector is not one longer than the feature vector the access is out of range.
  \<^verbatim>\<open>X *= y\<close> scales, \<^verbatim>\<open>resize\<close> cuts or pads with zeros, \<^verbatim>\<open>set\<close> overwrites one entry,
  \<^verbatim>\<open>Vector(0)\<close> is the vector with no entry.
\<close>

definition dot_with_intcpt :: "vec \<Rightarrow> vec \<Rightarrow> error + real" where
  "dot_with_intcpt param X =
     (if length param = length X + 1
      then Inr (sum_list (map2 (*) param X) + last param)
      else Inl IndexError)"

definition scale :: "real \<Rightarrow> vec \<Rightarrow> vec" where
  "scale c X = map (\<lambda>v. v * c) X"

definition resize :: "nat \<Rightarrow> vec \<Rightarrow> vec" where
  "resize n X = take n X @ replicate (n - length X) 0"

definition vec_set :: "vec \<Rightarrow> int \<Rightarrow> real \<Rightarrow> error + vec" where
  "vec_set X idx val = (if in_range X idx then Inr (X[nat idx := val]) else Inl IndexError)"

text \<open>The closure the constructor assigns to \<^verbatim>\<open>gradient_func_\<close>.\<close>

definition svm_gradient_func :: "vec LabeledPointHObj \<Rightarrow> vec \<Rightarrow> error + vec" where
  "svm_gradient_func this_obj param =
     (let y = obj_y this_obj; X = obj_x this_obj in
      case dot_with_intcpt param X of
        Inl e \<Rightarrow> Inl e
      | Inr d \<Rightarrow>
          (let margin = d * y in
           if margin < 1 then
             (let X1 = scale y X;
                  num_param = int (length param);
                  X2 = resize (nat num_param) X1
              in vec_set X2 (num_param - 1) y)
           else Inr []))"

text \<open>
  The closure the constructor assigns to \<^verbatim>\<open>error_func_\<close>: the loop over the pairs of
  \<^verbatim>\<open>X\<close>, the bias, the product with the label, the test \<^verbatim>\<open>indicator <= 0\<close>.
\<close>

fun svm_indicator_loop :: "vec \<Rightarrow> feavec \<Rightarrow> real \<Rightarrow> error + real" where
  "svm_indicator_loop params [] indicator = Inr indicator"
| "svm_indicator_loop params ((fea, val) # rest) indicator =
     (case param_at params fea of
        Inl e \<Rightarrow> Inl e
      | Inr w \<Rightarrow> svm_indicator_loop params rest (indicator + w * val))"

definition svm_error_func :: "vec LabeledPointHObj \<Rightarrow> vec \<Rightarrow> error + real" where
  "svm_error_func this_obj params =
     (let y = obj_y this_obj; X = obj_x this_obj in
      case svm_indicator_loop params (feaval X) 0 of
        Inl e \<Rightarrow> Inl e
      | Inr indicator \<Rightarrow>
          (case param_at params (get_num_param params - 1) of
             Inl e \<Rightarrow> Inl e
           | Inr bias \<Rightarrow>
               (let indicator' = (indicator + bias) * y in
                if indicator' \<le> 0 then Inr 1 else Inr 0)))"

text \<open>
  The constructor \<^verbatim>\<open>SVM(_num_features)\<close>: the base constructor
  \<^verbatim>\<open>Model(_num_features + 1)\<close>, then the three assignments. The gradient reaches the
  optimizer as the pairs of the vector.
\<close>

definition SVM_new :: "int \<Rightarrow> error + (vec LabeledPointHObj) Model" where
  "SVM_new num_features =
     (case set_num_param (num_features + 1) Model_new of
        Inl e \<Rightarrow> Inl e
      | Inr m \<Rightarrow>
          Inr (m\<lparr>num_feature := num_features,
                 gradient_func := Some (\<lambda>this_obj param.
                    case svm_gradient_func this_obj param of
                      Inl e \<Rightarrow> Inl e
                    | Inr g \<Rightarrow> Inr (feaval g)),
                 error_func := Some svm_error_func\<rparr>))"

section \<open>The test loop of examples/svm\_fgd.cpp\<close>

text \<open>
  The example program counts the errors on the test set with a loop of its own over a
  copy \<^verbatim>\<open>bweight\<close> of the parameters: \<^verbatim>\<open>indicator += bweight[fea] * val\<close> for every pair,
  \<^verbatim>\<open>indicator += bweight[num_features]\<close>, \<^verbatim>\<open>indicator *= y\<close> and then
  \<^verbatim>\<open>if (indicator < 0) error_agg.update(1)\<close>. The result is what the record adds to
  \<^verbatim>\<open>error_agg\<close>. The loop over the pairs is the one of the error function of \<^verbatim>\<open>SVM\<close>, and
  \<^verbatim>\<open>bweight[i]\<close> reads like \<open>param_at\<close>: out of range it is an IndexError.
\<close>

definition svm_fgd_test_error :: "vec \<Rightarrow> int \<Rightarrow> vec LabeledPointHObj \<Rightarrow> error + int" where
  "svm_fgd_test_error bweight num_features this_obj =
     (let y = obj_y this_obj; X = obj_x this_obj in
      case svm_indicator_loop bweight (feaval X) 0 of
        Inl e \<Rightarrow> Inl e
      | Inr indicator \<Rightarrow>
          (case param_at bweight num_features of
             Inl e \<Rightarrow> Inl e
           | Inr bias \<Rightarrow>
               (let indicator' = (indicator + bias) * y in
                if indicator' < 0 then Inr 1 else Inr 0)))"

section \<open>Notions and inputs used in the statements\<close>

text \<open>
  Gradient functions for the concrete runs below, over records of type \<^typ>\<open>unit\<close> (the
  record carries nothing: the gradient depends at most on the parameters).
  \<open>zero_grad\<close> has no component, \<open>unit_grad\<close> is the constant 1 on parameter 0, and
  \<open>drift_grad\<close> is \<open>w + 1\<close> on parameter 0, where \<open>w\<close> is the value of that parameter in the
  vector the gradient is evaluated against.
\<close>

definition zero_grad :: "unit \<Rightarrow> vec \<Rightarrow> error + feavec" where
  "zero_grad this_obj current_vec = Inr []"

definition unit_grad :: "unit \<Rightarrow> vec \<Rightarrow> error + feavec" where
  "unit_grad this_obj current_vec = Inr [(0, 1)]"

definition drift_grad :: "unit \<Rightarrow> vec \<Rightarrow> error + feavec" where
  "drift_grad this_obj current_vec =
     (case current_vec of [] \<Rightarrow> Inr [] | w # rest \<Rightarrow> Inr [(0, w + 1)])"







section \<open>Lemmas on the optimizer\<close>

lemma update_length: "update v i d = Inr v' \<Longrightarrow> length v' = length v"
  by (auto simp: update_def split: if_splits)

lemma update_vadd:
  "length d = length s \<Longrightarrow>
   update (vadd s d) i x = (case update s i x of Inl e \<Rightarrow> Inl e | Inr s' \<Rightarrow> Inr (vadd s' d))"
  by (auto simp: update_def in_range_def vadd_def list_eq_iff_nth_eq nth_list_update)

lemma apply_grad_length:
  "apply_grad lr nl ng grad (c, s) = Inr (c', s') \<Longrightarrow> length c' = length c \<and> length s' = length s"
proof (induction grad arbitrary: c s)
  case Nil
  then show ?case by simp
next
  case (Cons w grad)
  obtain fea val where w: "w = (fea, val)" by (cases w)
  from Cons.prems w show ?case
    by (auto simp: Let_def split: sum.splits if_splits dest!: Cons.IH dest: update_length)
qed

text \<open>
  Shifting the store by a vector \<open>d\<close> before the loop shifts it by \<open>d\<close> after the loop and
  changes nothing else: the loop never reads the store.
\<close>

lemma apply_grad_vadd:
  "length d = length s \<Longrightarrow>
   apply_grad lr nl ng grad (c, vadd s d) =
     (case apply_grad lr nl ng grad (c, s) of
        Inl e \<Rightarrow> Inl e
      | Inr st \<Rightarrow> Inr (fst st, vadd (snd st) d))"
proof (induction grad arbitrary: c s)
  case Nil
  then show ?case by simp
next
  case (Cons w grad)
  obtain fea val where w: "w = (fea, val)" by (cases w)
  show ?case
    using Cons.prems w
    by (auto simp: Let_def update_vadd Cons.IH split: sum.splits dest: update_length)
qed

lemma list_execute_length:
  "list_execute data (update_param_body gf lr nl ng) (c, s) = Inr (c', s') \<Longrightarrow>
   length c' = length c \<and> length s' = length s"
proof (induction data arbitrary: c s)
  case Nil
  then show ?case by simp
next
  case (Cons obj data)
  from Cons.prems obtain c1 s1 where
    b: "update_param_body gf lr nl ng obj (c, s) = Inr (c1, s1)" and
    r: "list_execute data (update_param_body gf lr nl ng) (c1, s1) = Inr (c', s')"
    by (auto split: sum.splits)
  from b have "length c1 = length c \<and> length s1 = length s"
    by (auto simp: update_param_body_def split: sum.splits dest: apply_grad_length)
  with Cons.IH [OF r] show ?case by simp
qed

lemma list_execute_vadd:
  "length d = length s \<Longrightarrow>
   list_execute data (update_param_body gf lr nl ng) (c, vadd s d) =
     (case list_execute data (update_param_body gf lr nl ng) (c, s) of
        Inl e \<Rightarrow> Inl e
      | Inr st \<Rightarrow> Inr (fst st, vadd (snd st) d))"
proof (induction data arbitrary: c s)
  case Nil
  then show ?case by simp
next
  case (Cons obj data)
  show ?case
  proof (cases "gf obj c")
    case (Inl e)
    then show ?thesis by (simp add: update_param_body_def)
  next
    case (Inr grad)
    show ?thesis
    proof (cases "apply_grad lr nl ng grad (c, s)")
      case (Inl e)
      then show ?thesis using Inr Cons.prems
        by (simp add: update_param_body_def apply_grad_vadd)
    next
      case r: (Inr st)
      obtain c' s' where st: "st = (c', s')" by (cases st)
      have len: "length d = length s'"
        using apply_grad_length r st Cons.prems by metis
      show ?thesis using Inr r st Cons.prems Cons.IH [OF len]
        by (simp add: update_param_body_def apply_grad_vadd)
    qed
  qed
qed

text \<open>The loop of \<open>l2_regularize\<close> in closed form.\<close>

lemma l2_regularize_from_upt:
  "length p = n \<Longrightarrow> k \<le> n \<Longrightarrow>
   l2_regularize_from lr lam (map int [k..<n]) p =
     Inr (take k p @ map (\<lambda>v. v + - v * lr * lam) (drop k p))"
proof (induction "n - k" arbitrary: k p)
  case 0
  then show ?case by simp
next
  case (Suc m)
  then have kn: "k < n" by simp
  let ?p' = "p[k := p ! k + - (p ! k) * lr * lam]"
  have upt: "[k..<n] = k # [Suc k..<n]" using kn by (simp add: upt_conv_Cons)
  have ih: "l2_regularize_from lr lam (map int [Suc k..<n]) ?p' =
      Inr (take (Suc k) ?p' @ map (\<lambda>v. v + - v * lr * lam) (drop (Suc k) ?p'))"
    using Suc.hyps(1) [of "Suc k" ?p'] Suc.hyps(2) Suc.prems kn by simp
  have t: "take (Suc k) ?p' = take k p @ [p ! k + - (p ! k) * lr * lam]"
    using kn Suc.prems(1) by (simp add: take_Suc_conv_app_nth)
  have d: "drop k p = p ! k # drop (Suc k) p"
    using kn Suc.prems(1) by (simp add: Cons_nth_drop_Suc)
  have step: "l2_regularize_from lr lam (map int [k..<n]) p =
      l2_regularize_from lr lam (map int [Suc k..<n]) ?p'"
    using kn Suc.prems(1) by (simp add: upt param_at_def update_def in_range_def del: upt_Suc)
  have "take (Suc k) ?p' @ map (\<lambda>v. v + - v * lr * lam) (drop (Suc k) ?p') =
      take k p @ map (\<lambda>v. v + - v * lr * lam) (drop k p)"
    unfolding t d by simp
  with step ih show ?case by simp
qed

lemma l2_regularize_eq:
  "l2_regularize gd p = Inr (vadd p (map (\<lambda>v. - v * learning_rate gd * lambda gd) p))"
proof -
  have "l2_regularize gd p = Inr (map (\<lambda>v. v + - v * learning_rate gd * lambda gd) p)"
    using l2_regularize_from_upt [of p "length p" 0 "learning_rate gd" "lambda gd"]
    by (simp add: l2_regularize_def get_num_param_def)
  moreover have "map (\<lambda>v. v + - v * learning_rate gd * lambda gd) p =
      vadd p (map (\<lambda>v. - v * learning_rate gd * lambda gd) p)"
    by (simp add: vadd_def list_eq_iff_nth_eq)
  ultimately show ?thesis by simp
qed

lemma update_param_run_l2:
  "update_param_run (gd\<lparr>regularization_flag := True, regularization_norm := 2\<rparr>) data p ng =
     (case update_param_run (gd\<lparr>regularization_flag := False\<rparr>) data p ng of
        Inl e \<Rightarrow> Inl e
      | Inr st \<Rightarrow>
          Inr (fst st, vadd (snd st) (map (\<lambda>v. - v * learning_rate gd * lambda gd) p)))"
proof (cases "learning_rate gd = 0")
  case True
  then show ?thesis by (simp add: update_param_run_def)
next
  case lr: False
  show ?thesis
  proof (cases "gd_gradient_func gd")
    case None
    then show ?thesis using lr by (simp add: update_param_run_def)
  next
    case (Some gf)
    let ?d = "map (\<lambda>v. - v * learning_rate gd * lambda gd) p"
    have len: "length ?d = length p" by simp
    show ?thesis
      using lr Some list_execute_vadd [OF len, of data gf "learning_rate gd" "int (length data)" ng p]
      by (simp add: update_param_run_def regularize_def l2_regularize_eq get_all_param_def
          l2_regularize_def split: sum.splits)
  qed
qed

section \<open>Lemmas on the model and the SVM closures\<close>



text \<open>The pass when the error function is not set.\<close>

lemma aggregate_unset:
  "error_func m = None \<Longrightarrow>
   aggregate (avg_error_body m) parts =
     (if concat parts = [] then Inr (0, 0) else Inl BadFunctionCall)"
proof (induction parts)
  case Nil
  then show ?case by simp
next
  case (Cons data parts)
  then show ?case by (cases data) (simp_all add: avg_error_body_def)
qed

text \<open>The guards of the sibling operations of \<open>avg_error\<close>.\<close>

lemma predict_unset:
  "predict_func m = None \<Longrightarrow>
   predict m data = Inl (ConfigurationError ''Predict function is not specified.'')"
  by (simp add: predict_def)

lemma train_unset:
  "0 < get_num_param (param_list m) \<Longrightarrow> gradient_func m = None \<or> error_func m = None \<Longrightarrow>
   train m parts iters lr = Inl (ConfigurationError ''Gradient function is not specified.'') \<or>
   train m parts iters lr = Inl (ConfigurationError ''Error function is not specified.'')"
  by (auto simp: train_def)

lemma train_test_unset:
  "0 < get_num_param (param_list m) \<Longrightarrow> gradient_func m = None \<or> error_func m = None \<Longrightarrow>
   train_test m parts test iters lr =
     Inl (ConfigurationError ''Gradient function is not specified.'') \<or>
   train_test m parts test iters lr =
     Inl (ConfigurationError ''Error function is not specified.'')"
  by (auto simp: train_test_def)

lemma avg_error_unset:
  "error_func m = None \<Longrightarrow>
   avg_error m parts = (if concat parts = [] then Inr NaN else Inl BadFunctionCall)"
  by (simp add: avg_error_def aggregate_unset dbl_div_def)

text \<open>The loop over the pairs of a dense vector is the dot product.\<close>

lemma svm_indicator_loop_upt:
  "k + length X \<le> length params \<Longrightarrow>
   svm_indicator_loop params (zip (map int [k..<k + length X]) X) acc =
     Inr (acc + sum_list (map2 (*) (drop k params) X))"
proof (induction X arbitrary: k acc)
  case Nil
  then show ?case by simp
next
  case (Cons v X)
  have kl: "k < length params" using Cons.prems by simp
  have "k < k + Suc (length X)" by simp
  then have "[k..<k + Suc (length X)] = k # [Suc k..<k + Suc (length X)]"
    by (rule upt_conv_Cons)
  then have upt: "[k..<k + length (v # X)] = k # [Suc k..<Suc k + length X]"
    by (simp only: length_Cons add_Suc_right add_Suc)
  have d: "drop k params = params ! k # drop (Suc k) params"
    using kl by (simp add: Cons_nth_drop_Suc)
  have ih: "svm_indicator_loop params (zip (map int [Suc k..<Suc k + length X]) X)
      (acc + params ! k * v) =
      Inr (acc + params ! k * v + sum_list (map2 (*) (drop (Suc k) params) X))"
    using Cons.prems by (intro Cons.IH) simp
  show ?case
    unfolding upt d using kl ih by (simp add: param_at_def in_range_def add.assoc)
qed

lemma svm_indicator_loop_feaval:
  "length X \<le> length params \<Longrightarrow>
   svm_indicator_loop params (feaval X) 0 = Inr (sum_list (map2 (*) params X))"
  using svm_indicator_loop_upt [of 0 X params 0] by (simp add: feaval_def)


lemma svm_fgd_test_error_eq:
  "length bweight = length X + 1 \<Longrightarrow>
   svm_fgd_test_error bweight (int (length X)) (LabeledPointHObj X y) =
     Inr (if (sum_list (map2 (*) bweight X) + last bweight) * y < 0 then 1 else 0)"
proof -
  assume len: "length bweight = length X + 1"
  then have "bweight \<noteq> []" by auto
  then have "last bweight = bweight ! length X" using len by (simp add: last_conv_nth)
  then show ?thesis
    using len
    by (simp add: svm_fgd_test_error_def svm_indicator_loop_feaval param_at_def in_range_def)
qed



section \<open>Lemmas on the local copy and on the sum over workers\<close>

lemma update_param_body_pair:
  "update_param_body gf lr nl ng obj (c, s) =
     (case gf obj c of Inl e \<Rightarrow> Inl e | Inr grad \<Rightarrow> apply_grad lr nl ng grad (c, s))"
  by (simp add: update_param_body_def)



text \<open>
  The invariant of a round: at every index the store has moved from its base \<open>b\<close> by the
  fraction \<open>nl / ng\<close> of what the local copy has moved from the snapshot \<open>p\<close>.
\<close>

lemma apply_grad_scaled:
  "apply_grad lr nl ng grad (c, s) = Inr (c', s') \<Longrightarrow> length c = length s \<Longrightarrow>
   \<forall>j<length s. s ! j = b ! j + (real_of_int nl / real_of_int ng) * (c ! j - p ! j) \<Longrightarrow>
   \<forall>j<length s. s' ! j = b ! j + (real_of_int nl / real_of_int ng) * (c' ! j - p ! j)"
proof (induction grad arbitrary: c s)
  case Nil
  then show ?case by simp
next
  case (Cons w grad)
  obtain fea val where w: "w = (fea, val)" by (cases w)
  from Cons.prems(1) w obtain c1 s1 where
    c1: "update c fea (val * lr) = Inr c1" and
    ng: "ng \<noteq> 0" and
    s1: "update s fea (val * lr * real_of_int nl / real_of_int ng) = Inr s1" and
    rest: "apply_grad lr nl ng grad (c1, s1) = Inr (c', s')"
    by (auto simp: Let_def split: sum.splits if_splits)
  have "length c1 = length c" "length s1 = length s"
    using update_length [OF c1] update_length [OF s1] by simp_all
  then have len: "length c1 = length s1" "length s1 = length s"
    using Cons.prems(2) by simp_all
  have inv: "\<forall>j<length s1. s1 ! j = b ! j + (real_of_int nl / real_of_int ng) * (c1 ! j - p ! j)"
  proof (intro allI impI)
    fix j assume j: "j < length s1"
    then have old: "s ! j = b ! j + (real_of_int nl / real_of_int ng) * (c ! j - p ! j)"
      using Cons.prems(3) len by simp
    have cj: "c1 ! j = (if j = nat fea then c ! j + val * lr else c ! j)"
      using c1 j len Cons.prems(2)
      by (auto simp: update_def nth_list_update split: if_splits)
    have sj: "s1 ! j =
        (if j = nat fea then s ! j + val * lr * real_of_int nl / real_of_int ng else s ! j)"
      using s1 j len
      by (auto simp: update_def nth_list_update split: if_splits)
    show "s1 ! j = b ! j + (real_of_int nl / real_of_int ng) * (c1 ! j - p ! j)"
      unfolding cj sj old by (simp add: algebra_simps add_divide_distrib)
  qed
  from Cons.IH [OF rest len(1) inv] len show ?case by simp
qed

lemma list_execute_scaled:
  "list_execute data (update_param_body gf lr nl ng) (c, s) = Inr (c', s') \<Longrightarrow>
   length c = length s \<Longrightarrow>
   \<forall>j<length s. s ! j = b ! j + (real_of_int nl / real_of_int ng) * (c ! j - p ! j) \<Longrightarrow>
   \<forall>j<length s. s' ! j = b ! j + (real_of_int nl / real_of_int ng) * (c' ! j - p ! j)"
proof (induction data arbitrary: c s)
  case Nil
  then show ?case by simp
next
  case (Cons obj data)
  from Cons.prems(1) obtain grad c1 s1 where
    g: "gf obj c = Inr grad" and
    a: "apply_grad lr nl ng grad (c, s) = Inr (c1, s1)" and
    rest: "list_execute data (update_param_body gf lr nl ng) (c1, s1) = Inr (c', s')"
    by (auto simp: update_param_body_pair split: sum.splits)
  have len: "length c1 = length s1" "length s1 = length s"
    using apply_grad_length [OF a] Cons.prems(2) by simp_all
  have "\<forall>j<length s. s1 ! j = b ! j + (real_of_int nl / real_of_int ng) * (c1 ! j - p ! j)"
    using a Cons.prems(2,3) by (rule apply_grad_scaled)
  then have inv:
    "\<forall>j<length s1. s1 ! j = b ! j + (real_of_int nl / real_of_int ng) * (c1 ! j - p ! j)"
    using len by simp
  from Cons.IH [OF rest len(1) inv] len show ?case by simp
qed

lemma regularize_length: "regularize gd p = Inr p' \<Longrightarrow> length p' = length p"
  by (auto simp: regularize_def l2_regularize_eq vadd_def split: if_splits)

lemma update_param_run_length:
  "update_param_run gd data p ng = Inr (c, s) \<Longrightarrow> length c = length p \<and> length s = length p"
  by (auto simp: update_param_run_def get_all_param_def Let_def
      split: if_splits option.splits sum.splits
      dest!: list_execute_length regularize_length)

lemma update_param_run_scaled:
  assumes "update_param_run gd data p ng = Inr (c, s)" and "regularization_flag gd = False"
  shows "\<forall>j<length p.
     s ! j = p ! j + (real (length data) / real_of_int ng) * (c ! j - p ! j)"
proof -
  from assms obtain gf where
    run: "list_execute data
        (update_param_body gf (learning_rate gd) (int (length data)) ng) (p, p) = Inr (c, s)"
    by (auto simp: update_param_run_def get_all_param_def regularize_def Let_def
        split: if_splits option.splits)
  have "\<forall>j<length p. s ! j =
      p ! j + (real_of_int (int (length data)) / real_of_int ng) * (c ! j - p ! j)"
    using run by (rule list_execute_scaled) simp_all
  then show ?thesis by simp
qed

text \<open>The sum over the workers.\<close>

lemma update_param_workers_sum:
  "update_param_workers (workers_of gd parts) p ng acc = Inr r \<Longrightarrow>
   regularization_flag gd = False \<Longrightarrow> length acc = length p \<Longrightarrow>
   \<exists>cs. list_all2 (\<lambda>data c. current_vec_after gd data p ng = Inr c) parts cs \<and>
        length r = length p \<and>
        (\<forall>j<length p. r ! j = acc ! j +
           (\<Sum>(data, c)\<leftarrow>zip parts cs.
              (real (length data) / real_of_int ng) * (c ! j - p ! j)))"
proof (induction parts arbitrary: acc)
  case Nil
  then show ?case by (simp add: workers_of_def)
next
  case (Cons data parts)
  from Cons.prems(1) obtain c s where
    run: "update_param_run gd data p ng = Inr (c, s)" and
    rest: "update_param_workers (workers_of gd parts) p ng (vadd acc (vsub s p)) = Inr r"
    by (auto simp: workers_of_def update_param_def split: sum.splits)
  have len: "length c = length p" "length s = length p"
    using update_param_run_length [OF run] by simp_all
  have sc: "\<forall>j<length p. s ! j = p ! j + (real (length data) / real_of_int ng) * (c ! j - p ! j)"
    using run Cons.prems(2) by (rule update_param_run_scaled)
  have lacc: "length (vadd acc (vsub s p)) = length p"
    using len Cons.prems(3) by (simp add: vadd_def vsub_def)
  from Cons.IH [OF rest Cons.prems(2) lacc] obtain cs where
    cs: "list_all2 (\<lambda>data c. current_vec_after gd data p ng = Inr c) parts cs" and
    lr: "length r = length p" and
    sum: "\<forall>j<length p. r ! j = vadd acc (vsub s p) ! j +
           (\<Sum>(data, c)\<leftarrow>zip parts cs.
              (real (length data) / real_of_int ng) * (c ! j - p ! j))"
    by blast
  have cur: "current_vec_after gd data p ng = Inr c"
    using run by (simp add: current_vec_after_def)
  have "\<forall>j<length p. r ! j = acc ! j +
      (\<Sum>(data, c)\<leftarrow>zip (data # parts) (c # cs).
          (real (length data) / real_of_int ng) * (c ! j - p ! j))"
  proof (intro allI impI)
    fix j assume j: "j < length p"
    then have "vadd acc (vsub s p) ! j = acc ! j + (s ! j - p ! j)"
      using len Cons.prems(3) by (simp add: vadd_def vsub_def)
    then show "r ! j = acc ! j +
      (\<Sum>(data, c)\<leftarrow>zip (data # parts) (c # cs).
          (real (length data) / real_of_int ng) * (c ! j - p ! j))"
      using sum sc j by simp
  qed
  with cs cur lr show ?case
    by (intro exI [of _ "c # cs"]) simp
qed

lemma sum_list_zip_equal_size:
  "length parts = length cs \<Longrightarrow> \<forall>data\<in>set parts. length data = n \<Longrightarrow>
   (\<Sum>(data, c)\<leftarrow>zip parts cs. (real (length data) / x) * f c) =
   (real n / x) * (\<Sum>c\<leftarrow>cs. f c)"
  by (induction parts cs rule: list_induct2) (simp_all add: algebra_simps)

lemma count_samples_equal_size:
  "\<forall>data\<in>set parts. length data = n \<Longrightarrow> count_samples parts = int (length parts * n)"
  by (induction parts) (simp_all add: count_samples_def algebra_simps)

lemma update_param_length: "update_param gd data p ng = Inr r \<Longrightarrow> length r = length p"
  by (auto simp: update_param_def split: sum.splits dest: update_param_run_length)

lemma vadd_vsub_same: "length r = length p \<Longrightarrow> vadd p (vsub r p) = r"
  by (simp add: vadd_def vsub_def list_eq_iff_nth_eq)

lemma update_param_all_single:
  "update_param_all (workers_of gd [data]) p ng = update_param gd data p ng"
  by (cases "update_param gd data p ng")
     (simp_all add: update_param_all_def workers_of_def vadd_vsub_same update_param_length)

section \<open>Lemmas on the training loops\<close>

declare train_rounds.simps [simp del]
declare train_test_rounds.simps [simp del]










section \<open>Properties of the specification, claim by claim\<close>




text \<open>
  Claim C2. Specification: for a data set split into \<open>k\<close> partitions of equal size,
  processed by \<open>k\<close> workers running \<open>update_param\<close> for one round, the store after the
  round equals the store after the same round with all the data on a single worker.

  The claim fails on the code. With the constant gradient 1 on parameter 0, learning
  rate 1 and two records, a single worker adds \<open>1 * 2 / 2\<close> twice and leaves 2; two
  workers with one record each add \<open>1 * 1 / 2\<close> each and leave 1.
\<close>

theorem update_param_all_counterexample:
  "update_param_all (workers_of (SGD_new (Some unit_grad) 1) [[()], [()]]) [0] 2 = Inr [1] \<and>
   update_param (SGD_new (Some unit_grad) 1) (concat [[()], [()]]) [0] 2 = Inr [2]"
  by (simp add: update_param_all_def workers_of_def update_param_def update_param_run_def
      SGD_new_def regularize_def get_all_param_def update_param_body_def unit_grad_def
      update_def in_range_def vadd_def vsub_def)

text \<open>
  Claim C2, amended. For a data set split into \<open>k\<close> partitions of equal positive size,
  processed by \<open>k\<close> workers running \<open>update_param\<close> without regularization for one
  round with the global count of records, the store after the round is, at every
  index, the snapshot plus the mean over the workers of the move of their local copies
  from the snapshot: the mean of the \<open>k\<close> local passes. With one worker this is the
  pass of that worker itself; with more workers it is in general not the result of a
  single worker over all the data.
\<close>

theorem update_param_all_average:
  assumes "regularization_flag gd = False"
    and "\<forall>data\<in>set parts. length data = n" and "0 < n"
    and "update_param_all (workers_of gd parts) p (count_samples parts) = Inr r"
  shows "(\<exists>cs. list_all2 (\<lambda>data c. current_vec_after gd data p (count_samples parts) = Inr c)
              parts cs \<and>
            length r = length p \<and>
            (\<forall>j<length p. r ! j = p ! j + (\<Sum>c\<leftarrow>cs. c ! j - p ! j) / real (length parts))) \<and>
         update_param_all (workers_of gd [data]) p ng = update_param gd data p ng"
proof -
  let ?ng = "count_samples parts"
  have ng: "?ng = int (length parts * n)"
    using assms(2) by (rule count_samples_equal_size)
  from assms(4) have "update_param_workers (workers_of gd parts) p ?ng p = Inr r"
    by (simp add: update_param_all_def)
  from update_param_workers_sum [OF this assms(1)] obtain cs where
    cs: "list_all2 (\<lambda>data c. current_vec_after gd data p ?ng = Inr c) parts cs" and
    lr: "length r = length p" and
    sum: "\<forall>j<length p. r ! j = p ! j +
           (\<Sum>(data, c)\<leftarrow>zip parts cs.
              (real (length data) / real_of_int ?ng) * (c ! j - p ! j))"
    by auto
  have len: "length parts = length cs"
    using cs by (rule list_all2_lengthD)
  have "\<forall>j<length p. r ! j = p ! j + (\<Sum>c\<leftarrow>cs. c ! j - p ! j) / real (length parts)"
  proof (intro allI impI)
    fix j assume j: "j < length p"
    have "(\<Sum>(data, c)\<leftarrow>zip parts cs.
              (real (length data) / real_of_int ?ng) * (c ! j - p ! j)) =
          (real n / real_of_int ?ng) * (\<Sum>c\<leftarrow>cs. c ! j - p ! j)"
      using len assms(2) by (rule sum_list_zip_equal_size)
    also have "real n / real_of_int ?ng = 1 / real (length parts)"
      unfolding ng using assms(3) by simp
    finally show "r ! j = p ! j + (\<Sum>c\<leftarrow>cs. c ! j - p ! j) / real (length parts)"
      using sum j by simp
  qed
  with cs lr show ?thesis
    by (auto simp: update_param_all_single)
qed

theorem update_param_all_average_witness:
  "update_param_all (workers_of (SGD_new (Some drift_grad) 1) [[(), ()], [(), ()]]) [4] 4 =
     Inr [19] \<and>
   current_vec_after (SGD_new (Some drift_grad) 1) [(), ()] [4] 4 = Inr [19] \<and>
   (\<exists>cs. list_all2 (\<lambda>data c. current_vec_after (SGD_new (Some drift_grad) 1) data [4] 4 = Inr c)
           [[(), ()], [(), ()]] cs \<and>
         (19 :: real) = 4 + (\<Sum>c\<leftarrow>cs. c ! 0 - 4) / 2) \<and>
   update_param (SGD_new (Some drift_grad) 1) [(), (), (), ()] [4] 4 = Inr [79] \<and>
   update_param_all (workers_of (SGD_new (Some drift_grad) 1) [[(), ()]]) [4] 2 =
     update_param (SGD_new (Some drift_grad) 1) [(), ()] [4] 2"
proof -
  let ?gd = "SGD_new (Some drift_grad) 1 :: unit SGD"
  let ?parts = "[[(), ()], [(), ()]]"
  have f: "regularization_flag ?gd = False" by (simp add: SGD_new_def)
  have n: "\<forall>data\<in>set ?parts. length data = 2" by simp
  have c: "count_samples ?parts = 4" by (simp add: count_samples_def)
  have r: "update_param_all (workers_of ?gd ?parts) [4] (count_samples ?parts) = Inr [19]"
    unfolding c
    by (simp add: update_param_all_def workers_of_def update_param_def update_param_run_def
        SGD_new_def regularize_def get_all_param_def update_param_body_def drift_grad_def
        update_def in_range_def vadd_def vsub_def)
  have cur: "current_vec_after ?gd [(), ()] [4] 4 = Inr [19]"
    by (simp add: current_vec_after_def update_param_run_def SGD_new_def regularize_def
        get_all_param_def update_param_body_def drift_grad_def update_def in_range_def)
  have one: "update_param ?gd [(), (), (), ()] [4] 4 = Inr [79]"
    by (simp add: update_param_def update_param_run_def SGD_new_def regularize_def
        get_all_param_def update_param_body_def drift_grad_def update_def in_range_def)
  have two: "(0 :: nat) < 2" by simp
  show ?thesis
    using update_param_all_average [OF f n two r, of "[(), ()]" 2] r cur one
    unfolding c by simp
qed





text \<open>
  Claim C5. For every record with label \<open>y\<close> in \<open>{-1, +1}\<close> and linear model \<open>w\<cdot>x + b\<close>,
  the SVM error function counts the record as an error (returns 1) if and only if
  \<open>y * (w\<cdot>x + b) \<le> 0\<close>, the boundary case 0 included, and this convention holds wherever
  the misclassification error is computed.

  The error function of \<open>SVM\<close> does so (lemma \<open>svm_error_func_eq\<close>). The test loop of
  \<^verbatim>\<open>examples/svm_fgd.cpp\<close> tests \<^verbatim>\<open>indicator < 0\<close> under the same comment "right prediction
  if positive" (lemma \<open>svm_fgd_test_error_eq\<close>): on the boundary it counts no
  error. Here \<open>w = [1]\<close>, \<open>b = -1\<close>, \<open>x = [1]\<close>, \<open>y = 1\<close>, so \<open>y * (w\<cdot>x + b) = 0\<close>.
\<close>

theorem svm_fgd_boundary_not_counted:
  "svm_error_func (LabeledPointHObj [1] 1) [1, - 1] = Inr 1 \<and>
   svm_fgd_test_error [1, - 1] 1 (LabeledPointHObj [1] 1) = Inr 0"
  by (simp add: svm_error_func_def svm_fgd_test_error_def feaval_def param_at_def in_range_def
      get_num_param_def)

text \<open>
  Claim C6. Every operation that needs a pluggable closure fails with a "function not
  specified" error when the closure was never set: training for the gradient and the
  error function, prediction for the predict function, the average error for the error
  function.

  \<open>predict\<close>, \<open>train\<close> and \<open>train_test\<close> have the assertion (lemmas \<open>predict_unset\<close>,
  \<open>train_unset\<close>, \<open>train_test_unset\<close>); \<open>avg_error\<close> has none. On a model whose error
  function was never set, the average error over an empty data set is computed and is
  a NaN, and over one record the job dies of the call of the empty function, not of an
  assertion.
\<close>

theorem avg_error_unset_error_func:
  "error_func (Model_new\<lparr>param_list := [0]\<rparr> :: unit Model) = None \<and>
   avg_error (Model_new\<lparr>param_list := [0]\<rparr> :: unit Model) [[]] = Inr NaN \<and>
   avg_error (Model_new\<lparr>param_list := [0]\<rparr> :: unit Model) [[()]] = Inl BadFunctionCall"
  by (simp add: Model_new_def avg_error_def avg_error_body_def dbl_div_def)

text \<open>
  Claim C7. Specification: \<open>set_num_param n\<close> allocates the parameter store when
  \<open>n > 0\<close> and fails with a configuration error, raised at call time, when \<open>n \<le> 0\<close>.

  The claim fails on the code: for 0 and for a negative count the call returns
  normally and leaves the model as it was.
\<close>

theorem set_num_param_counterexample:
  "set_num_param 0 (Model_new :: unit Model) = Inr Model_new \<and>
   set_num_param (- 3) (Model_new :: unit Model) = Inr Model_new"
  by (simp add: set_num_param_def)

text \<open>
  Claim C7, amended. \<open>set_num_param n\<close> raises nothing: it allocates the store, \<open>n\<close>
  parameters equal to 0, when \<open>n > 0\<close>, and leaves the model as it was when \<open>n \<le> 0\<close>. A
  store that still has no parameter is reported later, by the first assertion of
  \<open>train\<close> and of \<open>train_test\<close>.
\<close>

theorem set_num_param_guard:
  "set_num_param n m = Inr (if 0 < n then m\<lparr>param_list := replicate (nat n) 0\<rparr> else m) \<and>
   (n \<le> 0 \<and> param_list m = [] \<longrightarrow>
      set_num_param n m = Inr m \<and>
      train m parts iters lr = Inl (ConfigurationError ''The number of parameters is 0.'') \<and>
      train_test m parts test iters lr =
        Inl (ConfigurationError ''The number of parameters is 0.''))"
  by (simp add: set_num_param_def init_def train_def train_test_def get_num_param_def)

theorem set_num_param_guard_witness:
  "set_num_param 2 (Model_new :: unit Model) = Inr (Model_new\<lparr>param_list := [0, 0]\<rparr>) \<and>
   set_num_param 0 (Model_new :: unit Model) = Inr Model_new \<and>
   train (Model_new :: unit Model) [[()]] 5 1 =
     Inl (ConfigurationError ''The number of parameters is 0.'') \<and>
   train_test (Model_new :: unit Model) [[()]] [[()]] 5 1 =
     Inl (ConfigurationError ''The number of parameters is 0.'')"
proof -
  have e: "param_list (Model_new :: unit Model) = []" by (simp add: Model_new_def)
  have two: "replicate 2 (0 :: real) = [0, 0]" by (simp add: numeral_2_eq_2)
  show ?thesis
    using set_num_param_guard [of 2 "Model_new :: unit Model" "[[()]]" 5 1 "[[()]]"]
      set_num_param_guard [of 0 "Model_new :: unit Model" "[[()]]" 5 1 "[[()]]"] e
    by (simp add: two)
qed

text \<open>
  Claim C8. Specification: a round with L1 regularization selected
  (\<open>set_regularization\<close> with norm 1) either fails with an UnsupportedOperation error or
  performs an L1 decay, and never silently leaves the store unchanged by the
  regularization step.

  The claim fails on the code. With norm 1, decay rate \<open>1/2\<close> and learning rate 1, a
  round over one record with an empty gradient returns normally and leaves the parameter
  1 as it is, where an L1 decay would have made it \<open>1/2\<close>.
\<close>

theorem update_param_l1_counterexample:
  "update_param (set_regularization 1 (1/2) (SGD_new (Some zero_grad) 1)) [()] [1] 1 = Inr [1]"
  by (simp add: update_param_def update_param_run_def SGD_new_def regularize_def
      get_all_param_def update_param_body_def zero_grad_def set_regularization_def)

text \<open>
  Claim C8, amended. With norm 1 the regularization step does nothing and raises
  nothing: the round is the round of the same optimizer with regularization off,
  whatever the decay rate, the data and the store.
\<close>

theorem update_param_l1_noop:
  "update_param (set_regularization 1 lam gd) data p ng =
   update_param (gd\<lparr>regularization_flag := False\<rparr>) data p ng"
  by (simp add: update_param_def update_param_run_def regularize_def set_regularization_def Let_def
      split: option.splits)

theorem update_param_l1_noop_witness:
  "update_param (set_regularization 1 (1/2) (SGD_new (Some drift_grad) 1)) [(), ()] [4] 2 =
     Inr [19] \<and>
   update_param ((SGD_new (Some drift_grad) 1)\<lparr>regularization_flag := False\<rparr>) [(), ()] [4] 2 =
     Inr [19]"
proof -
  have "update_param ((SGD_new (Some drift_grad) 1)\<lparr>regularization_flag := False\<rparr>)
      [(), ()] [4] 2 = Inr [19]"
    by (simp add: update_param_def update_param_run_def SGD_new_def regularize_def
        get_all_param_def update_param_body_def drift_grad_def update_def in_range_def)
  then show ?thesis
    using update_param_l1_noop [of "1/2" "SGD_new (Some drift_grad) 1" "[(), ()]" "[4]" 2]
    by simp
qed



text \<open>
  Claim C10. In \<open>update_param\<close> the local copy \<open>current_vec\<close> is taken from the store
  before the L2 decay of the round is applied to the store, so the gradients of a round
  with regularization are evaluated against the values before the decay and never see
  the decay of the same round.

  For every optimizer, partition, store and global count: with L2 regularization on,
  the local copy at the end of the round is the one of the round without
  regularization, the round fails exactly when the round without regularization fails,
  and the store it leaves is the store the round without regularization leaves plus
  the decay \<open>- v * learning_rate * lambda\<close> of every parameter \<open>v\<close> of the store as it was
  before the round. The gradient function is arbitrary, so no gradient saw the decay.
\<close>

theorem update_param_l2_after_snapshot:
  "current_vec_after (gd\<lparr>regularization_flag := True, regularization_norm := 2\<rparr>) data p ng =
     current_vec_after (gd\<lparr>regularization_flag := False\<rparr>) data p ng \<and>
   update_param (gd\<lparr>regularization_flag := True, regularization_norm := 2\<rparr>) data p ng =
     (case update_param (gd\<lparr>regularization_flag := False\<rparr>) data p ng of
        Inl e \<Rightarrow> Inl e
      | Inr r \<Rightarrow> Inr (vadd r (map (\<lambda>v. - v * learning_rate gd * lambda gd) p)))"
  by (simp add: update_param_def current_vec_after_def update_param_run_l2 split: sum.splits)

theorem update_param_l2_after_snapshot_witness:
  "current_vec_after (set_regularization 2 (1/2) (SGD_new (Some drift_grad) 1)) [(), ()] [4] 2 =
     Inr [19] \<and>
   update_param (set_regularization 2 (1/2) (SGD_new (Some drift_grad) 1)) [(), ()] [4] 2 =
     Inr [17] \<and>
   update_param ((set_regularization 2 (1/2) (SGD_new (Some drift_grad) 1))
       \<lparr>regularization_flag := False\<rparr>) [(), ()] [4] 2 = Inr [19]"
proof -
  let ?gd = "set_regularization 2 (1/2) (SGD_new (Some drift_grad) 1)"
  have r: "update_param (?gd\<lparr>regularization_flag := False\<rparr>) [(), ()] [4] 2 = Inr [19]"
    by (simp add: update_param_def update_param_run_def SGD_new_def regularize_def
        set_regularization_def get_all_param_def update_param_body_def drift_grad_def
        update_def in_range_def)
  have c: "current_vec_after (?gd\<lparr>regularization_flag := False\<rparr>) [(), ()] [4] 2 = Inr [19]"
    by (simp add: current_vec_after_def update_param_run_def SGD_new_def regularize_def
        set_regularization_def get_all_param_def update_param_body_def drift_grad_def
        update_def in_range_def)
  have g: "?gd\<lparr>regularization_flag := True, regularization_norm := 2\<rparr> = ?gd"
    by (simp add: set_regularization_def)
  have l: "learning_rate ?gd = 1" "lambda ?gd = 1/2"
    by (simp_all add: set_regularization_def SGD_new_def)
  show ?thesis
    using update_param_l2_after_snapshot [of ?gd "[(), ()]" "[4]" 2]
    unfolding g r c l by (simp add: vadd_def)
qed

end
